theory Spec2Isabelle
  imports Complex_Main "HOL-Library.Monad_Syntax"
begin

section \<open>The projection calculator of the Pixel internal console\<close>

text \<open>
  The calculator lives in the hook \<^verbatim>\<open>useCalculator\<close>: twelve state slots, a lookup of the
  selected metro in \<^verbatim>\<open>CITY_TABLE\<close>, the derived average client value and the memoised
  object \<^verbatim>\<open>out\<close> with the projection of both scenarios. Each \<^verbatim>\<open>useMemo\<close> is a function
  of the state slots it reads.

  Numbers: every state slot is set through \<^verbatim>\<open>parseFloat(..) || default\<close> or from a fixed
  option list, so a slot never holds NaN; a slot is modelled as a \<^typ>\<open>real\<close>, and \<open>+\<close>,
  \<open>-\<close>, \<open>*\<close>, \<open>min\<close>, \<open>max\<close> and \<open>>\<close> are the ones of the reals (no rounding, no
  overflow). Division is the one operator that leaves the finite numbers on finite
  operands: it is modelled by \<open>js_div\<close>, whose result \<open>None\<close> stands for the Infinity or
  NaN that JavaScript returns on a zero divisor.

  The source computes in IEEE doubles. Rounding to nearest keeps the order of two
  results but can make two different exact results equal (\<^verbatim>\<open>1 - 1e-17\<close> is \<^verbatim>\<open>1\<close>), so
  an order between two runs is stated as \<open>\<le>\<close>, never as \<open><\<close>.
\<close>

subsection \<open>City table\<close>

text \<open>
  A row of the table is an object with the keys \<^verbatim>\<open>city\<close>, \<^verbatim>\<open>mult\<close> and \<^verbatim>\<open>avg\<close>. The fallback
  object of the lookup has no \<^verbatim>\<open>city\<close> key, hence the option.
\<close>

record row =
  city :: "string option"
  mult :: real
  avg :: real

definition CITY_TABLE :: "row list" where
  "CITY_TABLE =
    [\<lparr>city = Some ''New York, NY'', mult = 1.35, avg = 700000\<rparr>,
     \<lparr>city = Some ''San Francisco, CA'', mult = 1.35, avg = 1200000\<rparr>,
     \<lparr>city = Some ''Los Angeles, CA'', mult = 1.3, avg = 900000\<rparr>,
     \<lparr>city = Some ''Miami, FL'', mult = 1.3, avg = 600000\<rparr>,
     \<lparr>city = Some ''Boston, MA'', mult = 1.3, avg = 800000\<rparr>,
     \<lparr>city = Some ''Washington, DC'', mult = 1.3, avg = 750000\<rparr>,
     \<lparr>city = Some ''San Jose, CA'', mult = 1.3, avg = 1300000\<rparr>,
     \<lparr>city = Some ''Seattle, WA'', mult = 1.25, avg = 850000\<rparr>,
     \<lparr>city = Some ''San Diego, CA'', mult = 1.25, avg = 900000\<rparr>,
     \<lparr>city = Some ''Austin, TX'', mult = 1.2, avg = 480000\<rparr>,
     \<lparr>city = Some ''Denver, CO'', mult = 1.2, avg = 550000\<rparr>,
     \<lparr>city = Some ''Chicago, IL'', mult = 1.2, avg = 360000\<rparr>,
     \<lparr>city = Some ''Philadelphia, PA'', mult = 1.2, avg = 350000\<rparr>,
     \<lparr>city = Some ''Portland, OR'', mult = 1.2, avg = 525000\<rparr>,
     \<lparr>city = Some ''Phoenix, AZ'', mult = 1.2, avg = 450000\<rparr>,
     \<lparr>city = Some ''Dallas, TX'', mult = 1.15, avg = 420000\<rparr>,
     \<lparr>city = Some ''Atlanta, GA'', mult = 1.15, avg = 400000\<rparr>,
     \<lparr>city = Some ''Tampa, FL'', mult = 1.15, avg = 380000\<rparr>,
     \<lparr>city = Some ''Charlotte, NC'', mult = 1.15, avg = 380000\<rparr>,
     \<lparr>city = Some ''Nashville, TN'', mult = 1.15, avg = 475000\<rparr>,
     \<lparr>city = Some ''Orlando, FL'', mult = 1.15, avg = 380000\<rparr>,
     \<lparr>city = Some ''Houston, TX'', mult = 1.0, avg = 330000\<rparr>,
     \<lparr>city = Some ''Minneapolis, MN'', mult = 1.0, avg = 370000\<rparr>,
     \<lparr>city = Some ''Raleigh, NC'', mult = 1.0, avg = 420000\<rparr>,
     \<lparr>city = Some ''Salt Lake City, UT'', mult = 1.0, avg = 500000\<rparr>,
     \<lparr>city = Some ''Las Vegas, NV'', mult = 1.0, avg = 430000\<rparr>,
     \<lparr>city = Some ''San Antonio, TX'', mult = 1.0, avg = 320000\<rparr>,
     \<lparr>city = Some ''Columbus, OH'', mult = 1.0, avg = 300000\<rparr>,
     \<lparr>city = Some ''Indianapolis, IN'', mult = 1.0, avg = 290000\<rparr>,
     \<lparr>city = Some ''Cincinnati, OH'', mult = 1.0, avg = 285000\<rparr>,
     \<lparr>city = Some ''Kansas City, MO'', mult = 1.0, avg = 310000\<rparr>,
     \<lparr>city = Some ''St. Louis, MO'', mult = 1.0, avg = 280000\<rparr>,
     \<lparr>city = Some ''Oklahoma City, OK'', mult = 0.9, avg = 260000\<rparr>,
     \<lparr>city = Some ''Jacksonville, FL'', mult = 0.9, avg = 325000\<rparr>,
     \<lparr>city = Some ''Cleveland, OH'', mult = 0.9, avg = 220000\<rparr>,
     \<lparr>city = Some ''Pittsburgh, PA'', mult = 0.9, avg = 275000\<rparr>,
     \<lparr>city = Some ''Milwaukee, WI'', mult = 0.9, avg = 285000\<rparr>,
     \<lparr>city = Some ''San Juan, PR'', mult = 0.85, avg = 300000\<rparr>]"

subsection \<open>State of the hook\<close>

record state =
  sel_city :: string
  channel :: string
  spend :: real
  pmc :: real
  gpc :: real
  apptRate :: real
  uplift :: real
  baseMeta :: real
  baseGoogle :: real
  commissionRate :: real
  closeRate :: real
  fundedCap :: real

text \<open>The arguments of the \<^verbatim>\<open>useState\<close> calls.\<close>

definition initial_state :: state where
  "initial_state =
    \<lparr>sel_city = the (city (CITY_TABLE ! 0)), channel = ''meta'', spend = 1000, pmc = 500,
     gpc = 0, apptRate = 0.2, uplift = 0.15, baseMeta = 16, baseGoogle = 85,
     commissionRate = 0.025, closeRate = 0.25, fundedCap = 1300\<rparr>"

subsection \<open>Calculator logic\<close>

text \<open>
  \<^verbatim>\<open>CITY_TABLE.find((c) => c.city === city) || { mult: 1, avg: 350000 }\<close>: the first row
  whose key is the selected string, else the fallback object.
\<close>

definition metro :: "string \<Rightarrow> row" where
  "metro c =
    (case find (\<lambda>r. city r = Some c) CITY_TABLE of
       Some r \<Rightarrow> r
     | None \<Rightarrow> \<lparr>city = None, mult = 1, avg = 350000\<rparr>)"

text \<open>\<^verbatim>\<open>metro.avg * commissionRate\<close>\<close>

definition acv_memo :: "state \<Rightarrow> real" where
  "acv_memo s = avg (metro (sel_city s)) * commissionRate s"

text \<open>The quotient of two finite numbers; \<open>None\<close> when JavaScript gives Infinity or NaN.\<close>

definition js_div :: "real \<Rightarrow> real \<Rightarrow> real option" where
  "js_div a b = (if b = 0 then None else Some (a / b))"

record outputs =
  competitorCpl :: real
  pixelCpl :: real
  funded :: real
  pixelBudget :: real
  competitorLeads :: real
  pixelLeads :: real
  competitorAppts :: real
  pixelAppts :: real
  competitorCpa :: real
  pixelCpa :: real
  competitorClosed :: real
  pixelClosed :: real
  competitorRevenue :: real
  pixelRevenue :: real
  costOfWaiting :: real
  deltaAppts :: real
  deltaRevenue :: real
  acv :: real

text \<open>
  The body of the memo \<^verbatim>\<open>out\<close>, one binding per \<^verbatim>\<open>const\<close> of the source, in its order.
  The result is \<open>None\<close> when one of the four quotients is not finite.
\<close>

definition out :: "state \<Rightarrow> outputs option" where
  "out s =
    (let baseCpl = (if channel s = ''meta'' then baseMeta s else baseGoogle s)
                     * mult (metro (sel_city s));
         competitorCpl' = baseCpl;
         pixelCpl' = competitorCpl' * (1 - uplift s);
         funded' = min (fundedCap s) (max 0 (pmc s) + max 0 (gpc s));
         pixelBudget' = max 0 (spend s) + funded'
     in do {
       competitorLeads' \<leftarrow>
         (if spend s > 0 \<and> competitorCpl' > 0 then js_div (spend s) competitorCpl' else Some 0);
       pixelLeads' \<leftarrow>
         (if pixelBudget' > 0 \<and> pixelCpl' > 0 then js_div pixelBudget' pixelCpl' else Some 0);
       let competitorAppts' = competitorLeads' * apptRate s;
       let pixelAppts' = pixelLeads' * apptRate s;
       competitorCpa' \<leftarrow>
         (if competitorAppts' > 0 then js_div (spend s) competitorAppts' else Some 0);
       pixelCpa' \<leftarrow>
         (if pixelAppts' > 0 then js_div pixelBudget' pixelAppts' else Some 0);
       let competitorClosed' = competitorAppts' * closeRate s;
       let pixelClosed' = pixelAppts' * closeRate s;
       let competitorRevenue' = competitorClosed' * acv_memo s;
       let pixelRevenue' = pixelClosed' * acv_memo s;
       let costOfWaiting' = pixelRevenue';
       Some \<lparr>competitorCpl = competitorCpl', pixelCpl = pixelCpl', funded = funded',
             pixelBudget = pixelBudget', competitorLeads = competitorLeads',
             pixelLeads = pixelLeads', competitorAppts = competitorAppts',
             pixelAppts = pixelAppts', competitorCpa = competitorCpa', pixelCpa = pixelCpa',
             competitorClosed = competitorClosed', pixelClosed = pixelClosed',
             competitorRevenue = competitorRevenue', pixelRevenue = pixelRevenue',
             costOfWaiting = costOfWaiting', deltaAppts = pixelAppts' - competitorAppts',
             deltaRevenue = pixelRevenue' - competitorRevenue', acv = acv_memo s\<rparr>
     })"

subsection \<open>The second copy of the console\<close>

text \<open>
  The file whose root component is \<^verbatim>\<open>App\<close> carries its own copy of the table and of
  \<^verbatim>\<open>useCalculator\<close>. They are transcribed from that file, with the suffix \<open>2\<close>.
\<close>

definition CITY_TABLE2 :: "row list" where
  "CITY_TABLE2 =
    [\<lparr>city = Some ''New York, NY'', mult = 1.35, avg = 700000\<rparr>,
     \<lparr>city = Some ''San Francisco, CA'', mult = 1.35, avg = 1200000\<rparr>,
     \<lparr>city = Some ''Los Angeles, CA'', mult = 1.3, avg = 900000\<rparr>,
     \<lparr>city = Some ''Miami, FL'', mult = 1.3, avg = 600000\<rparr>,
     \<lparr>city = Some ''Boston, MA'', mult = 1.3, avg = 800000\<rparr>,
     \<lparr>city = Some ''Washington, DC'', mult = 1.3, avg = 750000\<rparr>,
     \<lparr>city = Some ''San Jose, CA'', mult = 1.3, avg = 1300000\<rparr>,
     \<lparr>city = Some ''Seattle, WA'', mult = 1.25, avg = 850000\<rparr>,
     \<lparr>city = Some ''San Diego, CA'', mult = 1.25, avg = 900000\<rparr>,
     \<lparr>city = Some ''Austin, TX'', mult = 1.2, avg = 480000\<rparr>,
     \<lparr>city = Some ''Denver, CO'', mult = 1.2, avg = 550000\<rparr>,
     \<lparr>city = Some ''Chicago, IL'', mult = 1.2, avg = 360000\<rparr>,
     \<lparr>city = Some ''Philadelphia, PA'', mult = 1.2, avg = 350000\<rparr>,
     \<lparr>city = Some ''Portland, OR'', mult = 1.2, avg = 525000\<rparr>,
     \<lparr>city = Some ''Phoenix, AZ'', mult = 1.2, avg = 450000\<rparr>,
     \<lparr>city = Some ''Dallas, TX'', mult = 1.15, avg = 420000\<rparr>,
     \<lparr>city = Some ''Atlanta, GA'', mult = 1.15, avg = 400000\<rparr>,
     \<lparr>city = Some ''Tampa, FL'', mult = 1.15, avg = 380000\<rparr>,
     \<lparr>city = Some ''Charlotte, NC'', mult = 1.15, avg = 380000\<rparr>,
     \<lparr>city = Some ''Nashville, TN'', mult = 1.15, avg = 475000\<rparr>,
     \<lparr>city = Some ''Orlando, FL'', mult = 1.15, avg = 380000\<rparr>,
     \<lparr>city = Some ''Houston, TX'', mult = 1.0, avg = 330000\<rparr>,
     \<lparr>city = Some ''Minneapolis, MN'', mult = 1.0, avg = 370000\<rparr>,
     \<lparr>city = Some ''Raleigh, NC'', mult = 1.0, avg = 420000\<rparr>,
     \<lparr>city = Some ''Salt Lake City, UT'', mult = 1.0, avg = 500000\<rparr>,
     \<lparr>city = Some ''Las Vegas, NV'', mult = 1.0, avg = 430000\<rparr>,
     \<lparr>city = Some ''San Antonio, TX'', mult = 1.0, avg = 320000\<rparr>,
     \<lparr>city = Some ''Columbus, OH'', mult = 1.0, avg = 300000\<rparr>,
     \<lparr>city = Some ''Indianapolis, IN'', mult = 1.0, avg = 290000\<rparr>,
     \<lparr>city = Some ''Cincinnati, OH'', mult = 1.0, avg = 285000\<rparr>,
     \<lparr>city = Some ''Kansas City, MO'', mult = 1.0, avg = 310000\<rparr>,
     \<lparr>city = Some ''St. Louis, MO'', mult = 1.0, avg = 280000\<rparr>,
     \<lparr>city = Some ''Oklahoma City, OK'', mult = 0.9, avg = 260000\<rparr>,
     \<lparr>city = Some ''Jacksonville, FL'', mult = 0.9, avg = 325000\<rparr>,
     \<lparr>city = Some ''Cleveland, OH'', mult = 0.9, avg = 220000\<rparr>,
     \<lparr>city = Some ''Pittsburgh, PA'', mult = 0.9, avg = 275000\<rparr>,
     \<lparr>city = Some ''Milwaukee, WI'', mult = 0.9, avg = 285000\<rparr>,
     \<lparr>city = Some ''San Juan, PR'', mult = 0.85, avg = 300000\<rparr>]"

definition metro2 :: "string \<Rightarrow> row" where
  "metro2 c =
    (case find (\<lambda>r. city r = Some c) CITY_TABLE2 of
       Some r \<Rightarrow> r
     | None \<Rightarrow> \<lparr>city = None, mult = 1, avg = 350000\<rparr>)"

definition acv_memo2 :: "state \<Rightarrow> real" where
  "acv_memo2 s = avg (metro2 (sel_city s)) * commissionRate s"

definition out2 :: "state \<Rightarrow> outputs option" where
  "out2 s =
    (let baseCpl = (if channel s = ''meta'' then baseMeta s else baseGoogle s)
                     * mult (metro2 (sel_city s));
         competitorCpl' = baseCpl;
         pixelCpl' = competitorCpl' * (1 - uplift s);
         funded' = min (fundedCap s) (max 0 (pmc s) + max 0 (gpc s));
         pixelBudget' = max 0 (spend s) + funded'
     in do {
       competitorLeads' \<leftarrow>
         (if spend s > 0 \<and> competitorCpl' > 0 then js_div (spend s) competitorCpl' else Some 0);
       pixelLeads' \<leftarrow>
         (if pixelBudget' > 0 \<and> pixelCpl' > 0 then js_div pixelBudget' pixelCpl' else Some 0);
       let competitorAppts' = competitorLeads' * apptRate s;
       let pixelAppts' = pixelLeads' * apptRate s;
       competitorCpa' \<leftarrow>
         (if competitorAppts' > 0 then js_div (spend s) competitorAppts' else Some 0);
       pixelCpa' \<leftarrow>
         (if pixelAppts' > 0 then js_div pixelBudget' pixelAppts' else Some 0);
       let competitorClosed' = competitorAppts' * closeRate s;
       let pixelClosed' = pixelAppts' * closeRate s;
       let competitorRevenue' = competitorClosed' * acv_memo2 s;
       let pixelRevenue' = pixelClosed' * acv_memo2 s;
       let costOfWaiting' = pixelRevenue';
       Some \<lparr>competitorCpl = competitorCpl', pixelCpl = pixelCpl', funded = funded',
             pixelBudget = pixelBudget', competitorLeads = competitorLeads',
             pixelLeads = pixelLeads', competitorAppts = competitorAppts',
             pixelAppts = pixelAppts', competitorCpa = competitorCpa', pixelCpa = pixelCpa',
             competitorClosed = competitorClosed', pixelClosed = pixelClosed',
             competitorRevenue = competitorRevenue', pixelRevenue = pixelRevenue',
             costOfWaiting = costOfWaiting', deltaAppts = pixelAppts' - competitorAppts',
             deltaRevenue = pixelRevenue' - competitorRevenue', acv = acv_memo2 s\<rparr>
     })"


subsection \<open>The market table as the specification enumerates it\<close>

text \<open>
  The specification lists the markets as \<open>name(costMultiplier, referenceAssetPrice)\<close>,
  separated by semicolons. \<open>spec_table\<close> follows that list word for word; it is compared
  with \<open>CITY_TABLE\<close> below. \<open>with_comma\<close> puts a comma in front of the last three
  characters of a name (the blank and the two-letter state code).
\<close>

definition spec_table :: "(string \<times> real \<times> real) list" where
  "spec_table =
    [(''New York NY'', 1.35, 700000),
     (''San Francisco CA'', 1.35, 1200000),
     (''Los Angeles CA'', 1.3, 900000),
     (''Miami FL'', 1.3, 600000),
     (''Boston MA'', 1.3, 800000),
     (''Washington DC'', 1.3, 750000),
     (''San Jose CA'', 1.3, 1300000),
     (''Seattle WA'', 1.25, 850000),
     (''San Diego CA'', 1.25, 900000),
     (''Austin TX'', 1.2, 480000),
     (''Denver CO'', 1.2, 550000),
     (''Chicago IL'', 1.2, 360000),
     (''Philadelphia PA'', 1.2, 350000),
     (''Portland OR'', 1.2, 525000),
     (''Phoenix AZ'', 1.2, 450000),
     (''Dallas TX'', 1.15, 420000),
     (''Atlanta GA'', 1.15, 400000),
     (''Tampa FL'', 1.15, 380000),
     (''Charlotte NC'', 1.15, 380000),
     (''Nashville TN'', 1.15, 475000),
     (''Orlando FL'', 1.15, 380000),
     (''Houston TX'', 1.0, 330000),
     (''Minneapolis MN'', 1.0, 370000),
     (''Raleigh NC'', 1.0, 420000),
     (''Salt Lake City UT'', 1.0, 500000),
     (''Las Vegas NV'', 1.0, 430000),
     (''San Antonio TX'', 1.0, 320000),
     (''Columbus OH'', 1.0, 300000),
     (''Indianapolis IN'', 1.0, 290000),
     (''Cincinnati OH'', 1.0, 285000),
     (''Kansas City MO'', 1.0, 310000),
     (''St. Louis MO'', 1.0, 280000),
     (''Oklahoma City OK'', 0.9, 260000),
     (''Jacksonville FL'', 0.9, 325000),
     (''Cleveland OH'', 0.9, 220000),
     (''Pittsburgh PA'', 0.9, 275000),
     (''Milwaukee WI'', 0.9, 285000),
     (''San Juan PR'', 0.85, 300000)]"

definition with_comma :: "string \<Rightarrow> string" where
  "with_comma n = take (length n - 3) n @ '','' @ drop (length n - 3) n"

section \<open>Properties of the memo \<open>out\<close>\<close>

subsection \<open>Guards and totality\<close>

text \<open>Behind each guard of the source the divisor is positive, so the quotient is finite.\<close>

lemma guard2:
  "(if 0 < a \<and> 0 < b then js_div c b else Some 0) = Some (if 0 < a \<and> 0 < b then c / b else 0)"
  by (simp add: js_div_def)

lemma guard1: "(if 0 < b then js_div c b else Some 0) = Some (if 0 < b then c / b else 0)"
  by (simp add: js_div_def)

lemmas out_simps = out_def Let_def guard1 guard2

lemma out_total: "\<exists>r. out s = Some r"
  unfolding out_simps by simp

text \<open>The platform (Pixel) column of the result, line by line.\<close>

lemma out_pixel:
  assumes "out s = Some r"
  shows "pixelCpl r = competitorCpl r * (1 - uplift s)"
    and "pixelLeads r =
          (if 0 < pixelBudget r \<and> 0 < pixelCpl r then pixelBudget r / pixelCpl r else 0)"
    and "pixelAppts r = pixelLeads r * apptRate s"
    and "pixelCpa r = (if 0 < pixelAppts r then pixelBudget r / pixelAppts r else 0)"
    and "pixelClosed r = pixelAppts r * closeRate s"
    and "pixelRevenue r = pixelClosed r * acv r"
proof -
  have r: "r = the (out s)" using assms by simp
  show "pixelCpl r = competitorCpl r * (1 - uplift s)"
    unfolding r out_simps by simp
  show "pixelLeads r =
          (if 0 < pixelBudget r \<and> 0 < pixelCpl r then pixelBudget r / pixelCpl r else 0)"
    unfolding r out_simps by simp
  show "pixelAppts r = pixelLeads r * apptRate s"
    unfolding r out_simps by simp
  show "pixelCpa r = (if 0 < pixelAppts r then pixelBudget r / pixelAppts r else 0)"
    unfolding r out_simps by simp
  show "pixelClosed r = pixelAppts r * closeRate s"
    unfolding r out_simps by simp
  show "pixelRevenue r = pixelClosed r * acv r"
    unfolding r out_simps by simp
qed


subsection \<open>Funded media\<close>

text \<open>
  Claim C1: for all credits \<open>pmc\<close> and \<open>gpc\<close>, negative ones included, and every cap,
  the memo returns a result whose \<open>funded\<close> is \<open>min fundedCap (max 0 pmc + max 0 gpc)\<close>:
  the credits are clamped at 0 one by one, summed, and the cap is applied once to the
  sum. The result never exceeds the cap, and under a cap of the documented range
  (\<open>0 \<le> fundedCap\<close>) it never goes below 0.
\<close>

theorem funded_capped:
  "\<exists>r. out s = Some r \<and>
       funded r = min (fundedCap s) (max 0 (pmc s) + max 0 (gpc s)) \<and>
       funded r \<le> fundedCap s \<and>
       (0 \<le> fundedCap s \<longrightarrow> 0 \<le> funded r)"
  unfolding out_simps by auto

text \<open>
  Under the default cap 1300: credits of 1000 and 800 give 1300 (not 1800), and credits
  of \<open>-200\<close> and \<open>-50\<close> give 0.
\<close>

theorem funded_capped_witness:
  "0 \<le> fundedCap (initial_state\<lparr>pmc := 1000, gpc := 800\<rparr>) \<and>
   map_option funded (out (initial_state\<lparr>pmc := 1000, gpc := 800\<rparr>)) = Some 1300 \<and>
   0 \<le> fundedCap (initial_state\<lparr>pmc := - 200, gpc := - 50\<rparr>) \<and>
   map_option funded (out (initial_state\<lparr>pmc := - 200, gpc := - 50\<rparr>)) = Some 0"
  using funded_capped [of "initial_state\<lparr>pmc := 1000, gpc := 800\<rparr>"]
    funded_capped [of "initial_state\<lparr>pmc := - 200, gpc := - 50\<rparr>"]
  by (auto simp: initial_state_def)

subsection \<open>Cost per lead\<close>

text \<open>
  Claim C2: for every state the Pixel CPL is the competitor CPL times \<open>1 - uplift\<close>, the
  competitor CPL is the baseline of the selected channel times the multiplier of the
  selected metro, and with \<open>uplift = 0\<close> the two CPLs are equal.
\<close>

theorem pixelCpl_uplift:
  "\<exists>r. out s = Some r \<and>
       pixelCpl r = competitorCpl r * (1 - uplift s) \<and>
       competitorCpl r =
         (if channel s = ''meta'' then baseMeta s else baseGoogle s) * mult (metro (sel_city s)) \<and>
       (uplift s = 0 \<longrightarrow> pixelCpl r = competitorCpl r)"
  unfolding out_simps by simp

theorem pixelCpl_uplift_witness:
  "uplift (initial_state\<lparr>uplift := 0\<rparr>) = 0 \<and>
   map_option competitorCpl (out (initial_state\<lparr>uplift := 0\<rparr>)) = Some (108 / 5) \<and>
   map_option pixelCpl (out (initial_state\<lparr>uplift := 0\<rparr>)) = Some (108 / 5)"
  using pixelCpl_uplift [of "initial_state\<lparr>uplift := 0\<rparr>"]
  by (auto simp: initial_state_def metro_def CITY_TABLE_def)

text \<open>
  Claim C10: the channel is compared with the string \<open>meta\<close> only. Every other string,
  known or not, selects the Google baseline, and the memo still returns a result.
\<close>

theorem channel_two_way:
  "\<exists>r. out s = Some r \<and>
       (channel s \<noteq> ''meta'' \<longrightarrow> competitorCpl r = baseGoogle s * mult (metro (sel_city s))) \<and>
       (channel s = ''meta'' \<longrightarrow> competitorCpl r = baseMeta s * mult (metro (sel_city s)))"
  unfolding out_simps by simp

theorem channel_two_way_witness:
  "channel (initial_state\<lparr>channel := ''tiktok''\<rparr>) \<noteq> ''meta'' \<and>
   map_option competitorCpl (out (initial_state\<lparr>channel := ''tiktok''\<rparr>)) = Some (85 * 1.35)"
  using channel_two_way [of "initial_state\<lparr>channel := ''tiktok''\<rparr>"]
  by (auto simp: initial_state_def metro_def CITY_TABLE_def)

subsection \<open>Division guards\<close>

text \<open>
  Claim C3: the memo always returns a result (no quotient is taken on a zero divisor).
  With \<open>spend = 0\<close> the competitor leads, appointments and cost per appointment are 0,
  whatever the CPL is; a spend or a competitor CPL that is zero or negative gives zero
  competitor leads, and a Pixel budget or Pixel CPL that is zero or negative gives zero
  Pixel leads.
\<close>

theorem zero_spend_guard:
  "\<exists>r. out s = Some r \<and>
       (spend s = 0 \<longrightarrow> competitorLeads r = 0 \<and> competitorAppts r = 0 \<and> competitorCpa r = 0) \<and>
       (spend s \<le> 0 \<or> competitorCpl r \<le> 0 \<longrightarrow> competitorLeads r = 0) \<and>
       (pixelBudget r \<le> 0 \<or> pixelCpl r \<le> 0 \<longrightarrow> pixelLeads r = 0)"
  unfolding out_simps by auto

text \<open>No spend, no credits and a zero baseline: every hypothesis of the guard holds.\<close>

theorem zero_spend_guard_witness:
  "spend (initial_state\<lparr>spend := 0, pmc := 0, baseMeta := 0\<rparr>) = 0 \<and>
   map_option competitorCpl (out (initial_state\<lparr>spend := 0, pmc := 0, baseMeta := 0\<rparr>)) = Some 0 \<and>
   map_option pixelBudget (out (initial_state\<lparr>spend := 0, pmc := 0, baseMeta := 0\<rparr>)) = Some 0 \<and>
   map_option competitorLeads (out (initial_state\<lparr>spend := 0, pmc := 0, baseMeta := 0\<rparr>)) = Some 0 \<and>
   map_option competitorAppts (out (initial_state\<lparr>spend := 0, pmc := 0, baseMeta := 0\<rparr>)) = Some 0 \<and>
   map_option competitorCpa (out (initial_state\<lparr>spend := 0, pmc := 0, baseMeta := 0\<rparr>)) = Some 0 \<and>
   map_option pixelLeads (out (initial_state\<lparr>spend := 0, pmc := 0, baseMeta := 0\<rparr>)) = Some 0"
  using zero_spend_guard [of "initial_state\<lparr>spend := 0, pmc := 0, baseMeta := 0\<rparr>"]
  unfolding out_simps by (simp add: initial_state_def)

subsection \<open>Cost of waiting\<close>

text \<open>
  Claim C5: for every state the result's \<open>costOfWaiting\<close> is its \<open>pixelRevenue\<close>, the
  Pixel closed count times the ACV.
\<close>

theorem costOfWaiting_is_pixelRevenue:
  "\<exists>r. out s = Some r \<and> costOfWaiting r = pixelRevenue r \<and>
       costOfWaiting r = pixelClosed r * acv_memo s"
  unfolding out_simps by simp

subsection \<open>Out-of-range efficiency\<close>

text \<open>
  Claim C7, as the code has it: the Pixel leads are never negative. With an efficiency
  above 1 and a positive competitor CPL the Pixel CPL is negative and is returned as it
  is, but the guard on the leads turns it into zero leads, and then the appointments,
  the cost per appointment, the closed count and the revenue of the Pixel column are 0.
\<close>

theorem uplift_above_one:
  "\<exists>r. out s = Some r \<and> 0 \<le> pixelLeads r \<and>
       (1 < uplift s \<and> 0 < competitorCpl r \<longrightarrow>
          pixelCpl r < 0 \<and> pixelLeads r = 0 \<and> pixelAppts r = 0 \<and> pixelCpa r = 0 \<and>
          pixelClosed r = 0 \<and> pixelRevenue r = 0)"
proof -
  obtain r where r: "out s = Some r" using out_total by blast
  note f = out_pixel [OF r]
  have nonneg: "0 \<le> pixelLeads r" by (simp add: f(2))
  have "pixelCpl r < 0 \<and> pixelLeads r = 0 \<and> pixelAppts r = 0 \<and> pixelCpa r = 0 \<and>
        pixelClosed r = 0 \<and> pixelRevenue r = 0"
    if "1 < uplift s" "0 < competitorCpl r"
  proof -
    have neg: "pixelCpl r < 0" unfolding f(1) using that by (simp add: mult_pos_neg)
    then have l: "pixelLeads r = 0" by (simp add: f(2))
    then have a: "pixelAppts r = 0" by (simp add: f(3))
    then show ?thesis using neg l by (simp add: f(4) f(5) f(6))
  qed
  with r nonneg show ?thesis by blast
qed

theorem uplift_above_one_witness:
  "1 < uplift (initial_state\<lparr>channel := ''google'', uplift := 2\<rparr>) \<and>
   map_option competitorCpl (out (initial_state\<lparr>channel := ''google'', uplift := 2\<rparr>)) = Some (459 / 4) \<and>
   map_option pixelCpl (out (initial_state\<lparr>channel := ''google'', uplift := 2\<rparr>)) = Some (- (459 / 4)) \<and>
   map_option pixelLeads (out (initial_state\<lparr>channel := ''google'', uplift := 2\<rparr>)) = Some 0 \<and>
   map_option pixelRevenue (out (initial_state\<lparr>channel := ''google'', uplift := 2\<rparr>)) = Some 0"
  using uplift_above_one [of "initial_state\<lparr>channel := ''google'', uplift := 2\<rparr>"]
  unfolding out_simps by (simp add: initial_state_def metro_def CITY_TABLE_def)

text \<open>
  Claim C7 as stated (negative leads, appointments and revenue at \<open>uplift = 1.5\<close>) fails:
  on the default state with the efficiency 1.5 the Pixel CPL is \<open>-10.8\<close>, and the leads,
  appointments and revenue of the Pixel column are 0.
\<close>

theorem uplift_above_one_counterexample:
  "map_option pixelCpl (out (initial_state\<lparr>uplift := 1.5\<rparr>)) = Some (- (54 / 5)) \<and>
   map_option pixelLeads (out (initial_state\<lparr>uplift := 1.5\<rparr>)) = Some 0 \<and>
   map_option pixelAppts (out (initial_state\<lparr>uplift := 1.5\<rparr>)) = Some 0 \<and>
   map_option pixelRevenue (out (initial_state\<lparr>uplift := 1.5\<rparr>)) = Some 0"
  unfolding out_simps by (simp add: initial_state_def metro_def CITY_TABLE_def)

subsection \<open>Monotonicity in the efficiency\<close>




section \<open>Properties of the city table and of the lookup\<close>

lemma names_distinct: "distinct (map city CITY_TABLE)"
  unfolding CITY_TABLE_def by simp

lemma find_key:
  "distinct (map f xs) \<Longrightarrow> r \<in> set xs \<Longrightarrow> f r = k \<Longrightarrow> find (\<lambda>x. f x = k) xs = Some r"
  by (induction xs) auto

lemma find_none: "k \<notin> set (map f xs) \<Longrightarrow> find (\<lambda>x. f x = k) xs = None"
  by (induction xs) auto

text \<open>
  Claim C4: for every string, the lookup returns the row of the table whose \<open>city\<close> is that
  very string (strings are compared character by character, so case matters), and the
  fallback object with the multiplier 1 and the average price 350000 when no row has
  it. \<open>metro\<close> is a function into rows: it has a value on every string and no error
  result.
\<close>

theorem metro_lookup:
  "(\<forall>r. r \<in> set CITY_TABLE \<and> city r = Some c \<longrightarrow> metro c = r) \<and>
   (Some c \<notin> set (map city CITY_TABLE) \<longrightarrow> metro c = \<lparr>city = None, mult = 1, avg = 350000\<rparr>)"
  using find_key [OF names_distinct] find_none [of "Some c" city CITY_TABLE]
  by (auto simp: metro_def)

text \<open>A name of the table, and the same name in lower case.\<close>

theorem metro_lookup_witness:
  "metro ''Austin, TX'' = \<lparr>city = Some ''Austin, TX'', mult = 1.2, avg = 480000\<rparr> \<and>
   metro ''austin, tx'' = \<lparr>city = None, mult = 1, avg = 350000\<rparr>"
  using metro_lookup [of "''Austin, TX''"] metro_lookup [of "''austin, tx''"]
  by (simp add: CITY_TABLE_def)

text \<open>
  Claim C8, as the code has it: the table has 38 rows, and it is the enumeration of the
  specification in the same order with the same multipliers and prices, where each
  \<open>city\<close> is the enumerated name with a comma between the city and the state code
  (\<open>New York, NY\<close>).
\<close>

theorem CITY_TABLE_enumerated:
  "length CITY_TABLE = 38 \<and>
   CITY_TABLE =
     map (\<lambda>(n, m, a). \<lparr>city = Some (with_comma n), mult = m, avg = a\<rparr>) spec_table"
  unfolding CITY_TABLE_def spec_table_def by (simp add: with_comma_def)

text \<open>
  Claim C8 as stated (the \<open>city\<close> of a row is the enumerated name, the key of the lookup)
  fails at the first row: its \<open>city\<close> is \<open>New York, NY\<close>, the enumerated name is
  \<open>New York NY\<close>, and the lookup of the enumerated name gives the fallback object.
\<close>

theorem CITY_TABLE_names_counterexample:
  "city (CITY_TABLE ! 0) = Some ''New York, NY'' \<and>
   fst (spec_table ! 0) = ''New York NY'' \<and>
   metro ''New York NY'' = \<lparr>city = None, mult = 1, avg = 350000\<rparr>"
  by (simp add: CITY_TABLE_def spec_table_def metro_def)

section \<open>The two copies agree\<close>

lemma CITY_TABLE2_eq: "CITY_TABLE2 = CITY_TABLE"
  unfolding CITY_TABLE_def CITY_TABLE2_def by (rule refl)

lemma metro2_eq: "metro2 c = metro c"
  unfolding metro_def metro2_def CITY_TABLE2_eq by (rule refl)

lemma acv_memo2_eq: "acv_memo2 s = acv_memo s"
  unfolding acv_memo_def acv_memo2_def metro2_eq by (rule refl)

text \<open>
  Claim C9: on every state the calculator of the second file returns what the calculator
  of the first file returns: the same table, the same metro, the same ACV and the same
  result object, field by field.
\<close>

theorem out2_eq_out:
  "CITY_TABLE2 = CITY_TABLE \<and> metro2 (sel_city s) = metro (sel_city s) \<and>
   acv_memo2 s = acv_memo s \<and> out2 s = out s"
  unfolding out_def out2_def metro2_eq acv_memo2_eq CITY_TABLE2_eq by simp

end
